theory Spec2Isabelle
  imports Main "HOL-Library.Word"
begin

section \<open>The JNI bridging shim of Sources/CDroidJNI/Helpers.cpp\<close>

text \<open>
  The shim is eight C++ functions, each a short sequence of calls through the function
  tables of \<^verbatim>\<open>jni.h\<close>. The embedding keeps that shape: a function table is a
  record of functions over the state of the external runtime, a call
  \<^verbatim>\<open>env->F(args)\<close> is the application of the field \<open>env_F\<close> of the table, and
  every shim function takes the runtime state and returns the state its calls leave.
  The shim is polymorphic in the runtime state \<open>'s\<close>: it has no variable of its own.
\<close>

subsection \<open>C and JNI types\<close>

text \<open>
  \<^verbatim>\<open>jint\<close>, \<^verbatim>\<open>jsize\<close> and \<^verbatim>\<open>int\<close> are signed 32-bit integers, read with
  \<open>sint\<close>; \<^verbatim>\<open>unsigned int\<close> is an unsigned 32-bit integer, read with \<open>unat\<close>;
  \<^verbatim>\<open>jbyte\<close> is \<^verbatim>\<open>signed char\<close>. Pointers and the opaque handles
  (\<^verbatim>\<open>jobject\<close>, \<^verbatim>\<open>jclass\<close>, \<^verbatim>\<open>jbyteArray\<close>, \<^verbatim>\<open>jmethodID\<close>,
  \<^verbatim>\<open>JNIEnv*\<close>, \<^verbatim>\<open>JavaVM*\<close>) are addresses, \<open>NULL\<close> being address 0. The native
  memory a \<^verbatim>\<open>const signed char*\<close> points into is a function from addresses to bytes.
\<close>

type_synonym jint = "32 word"
type_synonym jsize = "32 word"
type_synonym c_int = "32 word"
type_synonym c_uint = "32 word"
type_synonym jbyte = "8 word"
type_synonym ptr = nat
type_synonym memory = "ptr \<Rightarrow> jbyte"

abbreviation NULL :: ptr where
  "NULL \<equiv> 0"

text \<open>The struct \<^verbatim>\<open>CData\<close> of Helpers.h: a pointer and an unsigned count.\<close>

record CData =
  data :: ptr
  count :: c_uint

text \<open>
  The implicit conversion of \<^verbatim>\<open>data->count\<close> (\<^verbatim>\<open>unsigned int\<close>) to the
  parameter type \<^verbatim>\<open>jsize\<close> of \<^verbatim>\<open>NewByteArray\<close> and \<^verbatim>\<open>SetByteArrayRegion\<close>:
  the signed value congruent to the count modulo \<open>2 ^ 32\<close>, that is, the same 32 bits.
\<close>

definition jsize_of_uint :: "c_uint \<Rightarrow> jsize" where
  "jsize_of_uint c = word_of_int (uint c)"

text \<open>The bytes \<open>p[0], ..., p[n - 1]\<close> of native memory.\<close>

definition buffer_bytes :: "memory \<Rightarrow> ptr \<Rightarrow> nat \<Rightarrow> jbyte list" where
  "buffer_bytes mem p n = map (\<lambda>i. mem (p + i)) [0..<n]"

subsection \<open>The function tables of jni.h\<close>

text \<open>
  Modelled from the spec: \<^verbatim>\<open>jni.h\<close> is included by Helpers.h and is not among the
  sources. Of its two function tables, \<^verbatim>\<open>JNINativeInterface\<close> (behind
  \<^verbatim>\<open>JNIEnv\<close>) and \<^verbatim>\<open>JNIInvokeInterface\<close> (behind \<^verbatim>\<open>JavaVM\<close>), the records
  below hold the entries the shim calls, with the parameters the shim passes. An entry
  with an output parameter (\<^verbatim>\<open>JavaVM**\<close>, \<^verbatim>\<open>JNIEnv**\<close>, \<^verbatim>\<open>void**\<close>) takes the
  content of the caller's slot and returns, beside its status, the content it leaves
  there. \<^verbatim>\<open>SetByteArrayRegion\<close> reads its buffer from the native memory it is given.
  The runtime behind the tables is a parameter of every definition of the shim.
\<close>

record 's JNINativeInterface =
  env_GetJavaVM :: "ptr \<Rightarrow> 's \<Rightarrow> (jint \<times> ptr) \<times> 's"
  env_GetObjectClass :: "ptr \<Rightarrow> 's \<Rightarrow> ptr \<times> 's"
  env_GetMethodID :: "ptr \<Rightarrow> string \<Rightarrow> string \<Rightarrow> 's \<Rightarrow> ptr \<times> 's"
  env_CallVoidMethod :: "ptr \<Rightarrow> ptr \<Rightarrow> 's \<Rightarrow> 's"
  env_GetArrayLength :: "ptr \<Rightarrow> 's \<Rightarrow> jsize \<times> 's"
  env_GetByteArrayElements :: "ptr \<Rightarrow> ptr \<Rightarrow> 's \<Rightarrow> ptr \<times> 's"
  env_NewByteArray :: "jsize \<Rightarrow> 's \<Rightarrow> ptr \<times> 's"
  env_SetByteArrayRegion :: "ptr \<Rightarrow> jsize \<Rightarrow> jsize \<Rightarrow> ptr \<Rightarrow> memory \<Rightarrow> 's \<Rightarrow> 's"

record 's JNIInvokeInterface =
  vm_GetEnv :: "ptr \<Rightarrow> jint \<Rightarrow> 's \<Rightarrow> (jint \<times> ptr) \<times> 's"
  vm_AttachCurrentThread :: "ptr \<Rightarrow> ptr \<Rightarrow> 's \<Rightarrow> (jint \<times> ptr) \<times> 's"
  vm_DetachCurrentThread :: "'s \<Rightarrow> jint \<times> 's"

text \<open>
  Modelled from the spec: the constants of \<^verbatim>\<open>jni.h\<close>, with the values the JNI
  specification fixes for them.
\<close>

definition JNI_VERSION_1_4 :: jint where
  "JNI_VERSION_1_4 = 0x00010004"

definition JNI_VERSION_1_6 :: jint where
  "JNI_VERSION_1_6 = 0x00010006"

definition JNI_OK :: jint where
  "JNI_OK = 0"

definition JNI_ERR :: jint where
  "JNI_ERR = - 1"

definition JNI_EDETACHED :: jint where
  "JNI_EDETACHED = - 2"

definition JNI_EVERSION :: jint where
  "JNI_EVERSION = - 3"

subsection \<open>The shim\<close>

text \<open>
  One definition per function of Helpers.cpp, under the function's name. A function that
  returns \<^verbatim>\<open>void\<close> returns what it leaves behind: the content of its output slot
  when it has one, and the runtime state. The status a table entry returns is bound to
  \<open>rc\<close> and dropped where the source drops it.
\<close>

definition GetJVM :: "'s JNINativeInterface \<Rightarrow> ptr \<Rightarrow> 's \<Rightarrow> ptr \<times> 's" where
  "GetJVM env vm s = (case env_GetJavaVM env vm s of ((rc, vm'), s') \<Rightarrow> (vm', s'))"

definition GetJNIEnv :: "'s JNIInvokeInterface \<Rightarrow> ptr \<Rightarrow> 's \<Rightarrow> ptr \<times> 's" where
  "GetJNIEnv vm p_env s =
     (case vm_GetEnv vm p_env JNI_VERSION_1_6 s of ((rc, p_env'), s') \<Rightarrow> (p_env', s'))"

definition AttachCurrentThread :: "'s JNIInvokeInterface \<Rightarrow> ptr \<Rightarrow> 's \<Rightarrow> ptr \<times> 's" where
  "AttachCurrentThread vm p_env s =
     (case vm_AttachCurrentThread vm p_env NULL s of ((rc, p_env'), s') \<Rightarrow> (p_env', s'))"

definition DetachCurrentThread :: "'s JNIInvokeInterface \<Rightarrow> 's \<Rightarrow> 's" where
  "DetachCurrentThread vm s = (case vm_DetachCurrentThread vm s of (rc, s') \<Rightarrow> s')"

definition CallVoidMethod ::
  "'s JNINativeInterface \<Rightarrow> ptr \<Rightarrow> string \<Rightarrow> string \<Rightarrow> 's \<Rightarrow> 's" where
  "CallVoidMethod env thisClass name sig s =
     (case env_GetObjectClass env thisClass s of (jc, s1) \<Rightarrow>
      case env_GetMethodID env jc name sig s1 of (midCallBack, s2) \<Rightarrow>
      env_CallVoidMethod env thisClass midCallBack s2)"

definition GetArrayLength ::
  "'s JNINativeInterface \<Rightarrow> ptr \<Rightarrow> ptr \<Rightarrow> 's \<Rightarrow> c_int \<times> 's" where
  "GetArrayLength env thisClass bArray s =
     (case env_GetArrayLength env bArray s of (len, s') \<Rightarrow> (len, s'))"

definition GetByteArrayElements ::
  "'s JNINativeInterface \<Rightarrow> ptr \<Rightarrow> ptr \<Rightarrow> 's \<Rightarrow> ptr \<times> 's" where
  "GetByteArrayElements env thisClass bArray s =
     (case env_GetByteArrayElements env bArray 0 s of (elems, s') \<Rightarrow> (elems, s'))"

definition data_SwiftToJava ::
  "'s JNINativeInterface \<Rightarrow> CData \<Rightarrow> memory \<Rightarrow> 's \<Rightarrow> ptr \<times> 's" where
  "data_SwiftToJava env d mem s =
     (case env_NewByteArray env (jsize_of_uint (count d)) s of (ret, s1) \<Rightarrow>
      if ret = NULL then (NULL, s1)
      else (ret, env_SetByteArrayRegion env ret 0 (jsize_of_uint (count d)) (data d) mem s1))"

subsection \<open>The calls a run makes\<close>

text \<open>
  To state which entries of the tables a shim function calls, how often, in which order
  and with which arguments, a table is wrapped so that every entry appends a record of
  its call to a log before it answers as the wrapped entry does. The wrapped table is a
  table like any other, over the state \<open>jni_call list \<times> 's\<close>; running a shim function
  on it gives the calls of the run.
\<close>

datatype jni_call =
    Call_GetJavaVM ptr
  | Call_GetEnv ptr jint
  | Call_AttachCurrentThread ptr ptr
  | Call_DetachCurrentThread
  | Call_GetObjectClass ptr
  | Call_GetMethodID ptr string string
  | Call_CallVoidMethod ptr ptr
  | Call_GetArrayLength ptr
  | Call_GetByteArrayElements ptr ptr
  | Call_NewByteArray jsize
  | Call_SetByteArrayRegion ptr jsize jsize ptr

datatype jni_entry =
    GetJavaVM_entry
  | GetEnv_entry
  | AttachCurrentThread_entry
  | DetachCurrentThread_entry
  | GetObjectClass_entry
  | GetMethodID_entry
  | CallVoidMethod_entry
  | GetArrayLength_entry
  | GetByteArrayElements_entry
  | NewByteArray_entry
  | SetByteArrayRegion_entry

fun entry_of :: "jni_call \<Rightarrow> jni_entry" where
  "entry_of (Call_GetJavaVM vm) = GetJavaVM_entry"
| "entry_of (Call_GetEnv p v) = GetEnv_entry"
| "entry_of (Call_AttachCurrentThread p a) = AttachCurrentThread_entry"
| "entry_of Call_DetachCurrentThread = DetachCurrentThread_entry"
| "entry_of (Call_GetObjectClass obj) = GetObjectClass_entry"
| "entry_of (Call_GetMethodID cls name sig) = GetMethodID_entry"
| "entry_of (Call_CallVoidMethod obj mid) = CallVoidMethod_entry"
| "entry_of (Call_GetArrayLength a) = GetArrayLength_entry"
| "entry_of (Call_GetByteArrayElements a isCopy) = GetByteArrayElements_entry"
| "entry_of (Call_NewByteArray n) = NewByteArray_entry"
| "entry_of (Call_SetByteArrayRegion a start len buf) = SetByteArrayRegion_entry"

definition logged ::
  "jni_call \<Rightarrow> ('s \<Rightarrow> 'a \<times> 's) \<Rightarrow> jni_call list \<times> 's \<Rightarrow> 'a \<times> jni_call list \<times> 's" where
  "logged c f = (\<lambda>(tr, s). case f s of (r, s') \<Rightarrow> (r, (tr @ [c], s')))"

definition logged_void ::
  "jni_call \<Rightarrow> ('s \<Rightarrow> 's) \<Rightarrow> jni_call list \<times> 's \<Rightarrow> jni_call list \<times> 's" where
  "logged_void c f = (\<lambda>(tr, s). (tr @ [c], f s))"

definition traced_env :: "'s JNINativeInterface \<Rightarrow> (jni_call list \<times> 's) JNINativeInterface" where
  "traced_env env = \<lparr>
     env_GetJavaVM = (\<lambda>vm. logged (Call_GetJavaVM vm) (env_GetJavaVM env vm)),
     env_GetObjectClass = (\<lambda>obj. logged (Call_GetObjectClass obj) (env_GetObjectClass env obj)),
     env_GetMethodID = (\<lambda>cls name sig.
       logged (Call_GetMethodID cls name sig) (env_GetMethodID env cls name sig)),
     env_CallVoidMethod = (\<lambda>obj mid.
       logged_void (Call_CallVoidMethod obj mid) (env_CallVoidMethod env obj mid)),
     env_GetArrayLength = (\<lambda>a. logged (Call_GetArrayLength a) (env_GetArrayLength env a)),
     env_GetByteArrayElements = (\<lambda>a isCopy.
       logged (Call_GetByteArrayElements a isCopy) (env_GetByteArrayElements env a isCopy)),
     env_NewByteArray = (\<lambda>n. logged (Call_NewByteArray n) (env_NewByteArray env n)),
     env_SetByteArrayRegion = (\<lambda>a start len buf mem.
       logged_void (Call_SetByteArrayRegion a start len buf)
         (env_SetByteArrayRegion env a start len buf mem)) \<rparr>"

definition traced_vm :: "'s JNIInvokeInterface \<Rightarrow> (jni_call list \<times> 's) JNIInvokeInterface" where
  "traced_vm vm = \<lparr>
     vm_GetEnv = (\<lambda>p v. logged (Call_GetEnv p v) (vm_GetEnv vm p v)),
     vm_AttachCurrentThread = (\<lambda>p a.
       logged (Call_AttachCurrentThread p a) (vm_AttachCurrentThread vm p a)),
     vm_DetachCurrentThread = logged Call_DetachCurrentThread (vm_DetachCurrentThread vm) \<rparr>"

text \<open>The calls of one run of each shim function, from an empty log.\<close>

definition calls_GetJVM :: "'s JNINativeInterface \<Rightarrow> ptr \<Rightarrow> 's \<Rightarrow> jni_call list" where
  "calls_GetJVM env vm s = fst (snd (GetJVM (traced_env env) vm ([], s)))"

definition calls_GetJNIEnv :: "'s JNIInvokeInterface \<Rightarrow> ptr \<Rightarrow> 's \<Rightarrow> jni_call list" where
  "calls_GetJNIEnv vm p_env s = fst (snd (GetJNIEnv (traced_vm vm) p_env ([], s)))"

definition calls_AttachCurrentThread ::
  "'s JNIInvokeInterface \<Rightarrow> ptr \<Rightarrow> 's \<Rightarrow> jni_call list" where
  "calls_AttachCurrentThread vm p_env s =
     fst (snd (AttachCurrentThread (traced_vm vm) p_env ([], s)))"

definition calls_DetachCurrentThread :: "'s JNIInvokeInterface \<Rightarrow> 's \<Rightarrow> jni_call list" where
  "calls_DetachCurrentThread vm s = fst (DetachCurrentThread (traced_vm vm) ([], s))"

definition calls_CallVoidMethod ::
  "'s JNINativeInterface \<Rightarrow> ptr \<Rightarrow> string \<Rightarrow> string \<Rightarrow> 's \<Rightarrow> jni_call list" where
  "calls_CallVoidMethod env thisClass name sig s =
     fst (CallVoidMethod (traced_env env) thisClass name sig ([], s))"

definition calls_GetArrayLength ::
  "'s JNINativeInterface \<Rightarrow> ptr \<Rightarrow> ptr \<Rightarrow> 's \<Rightarrow> jni_call list" where
  "calls_GetArrayLength env thisClass bArray s =
     fst (snd (GetArrayLength (traced_env env) thisClass bArray ([], s)))"

definition calls_GetByteArrayElements ::
  "'s JNINativeInterface \<Rightarrow> ptr \<Rightarrow> ptr \<Rightarrow> 's \<Rightarrow> jni_call list" where
  "calls_GetByteArrayElements env thisClass bArray s =
     fst (snd (GetByteArrayElements (traced_env env) thisClass bArray ([], s)))"

definition calls_data_SwiftToJava ::
  "'s JNINativeInterface \<Rightarrow> CData \<Rightarrow> memory \<Rightarrow> 's \<Rightarrow> jni_call list" where
  "calls_data_SwiftToJava env d mem s =
     fst (snd (data_SwiftToJava (traced_env env) d mem ([], s)))"

text \<open>
  A table whose entries answer with a status, with every status passed through \<open>f\<close>:
  the same runtime, reporting other codes.
\<close>

definition map_status :: "(jint \<Rightarrow> jint) \<Rightarrow> 's JNIInvokeInterface \<Rightarrow> 's JNIInvokeInterface" where
  "map_status f vm = \<lparr>
     vm_GetEnv = (\<lambda>p v s. case vm_GetEnv vm p v s of ((rc, p'), s') \<Rightarrow> ((f rc, p'), s')),
     vm_AttachCurrentThread = (\<lambda>p a s.
       case vm_AttachCurrentThread vm p a s of ((rc, p'), s') \<Rightarrow> ((f rc, p'), s')),
     vm_DetachCurrentThread = (\<lambda>s.
       case vm_DetachCurrentThread vm s of (rc, s') \<Rightarrow> (f rc, s')) \<rparr>"

subsection \<open>What the shim expects of the runtime's byte arrays\<close>

text \<open>
  Modelled from the spec: the runtime behind the tables is external. What the spec and
  the JNI specification say of the three byte-array entries, relative to a reading
  \<open>arr\<close> of the runtime state that gives the elements of every live byte array:
  \<^item> \<^verbatim>\<open>NewByteArray(n)\<close> returns \<open>NULL\<close> or a reference to an array of the given
    length \<open>n\<close>, which is then not negative, with every element zero;
  \<^item> \<^verbatim>\<open>SetByteArrayRegion(a, start, len, buf)\<close>, the region lying inside the array,
    stores \<open>buf[0], ..., buf[len - 1]\<close> at the indices \<open>start, ..., start + len - 1\<close>
    of \<open>a\<close> and leaves the other elements of \<open>a\<close> as they are;
  \<^item> \<^verbatim>\<open>GetArrayLength(a)\<close> returns the number of elements of \<open>a\<close> and changes
    nothing.
\<close>

definition jni_array_contract ::
  "'s JNINativeInterface \<Rightarrow> ('s \<Rightarrow> ptr \<Rightarrow> jbyte list option) \<Rightarrow> bool" where
  "jni_array_contract env arr \<longleftrightarrow>
     (\<forall>n s. fst (env_NewByteArray env n s) \<noteq> NULL \<longrightarrow>
        0 \<le> sint n \<and>
        arr (snd (env_NewByteArray env n s)) (fst (env_NewByteArray env n s)) =
          Some (replicate (nat (sint n)) 0)) \<and>
     (\<forall>a start len buf mem s xs.
        arr s a = Some xs \<longrightarrow> 0 \<le> sint start \<longrightarrow> 0 \<le> sint len \<longrightarrow>
        sint start + sint len \<le> int (length xs) \<longrightarrow>
        arr (env_SetByteArrayRegion env a start len buf mem s) a =
          Some (take (nat (sint start)) xs @ buffer_bytes mem buf (nat (sint len)) @
                drop (nat (sint start + sint len)) xs)) \<and>
     (\<forall>a s xs. arr s a = Some xs \<longrightarrow>
        env_GetArrayLength env a s = (of_nat (length xs), s))"

subsection \<open>A reference runtime\<close>

text \<open>
  Modelled from the spec: a small runtime that meets the contract above, to run the shim
  on concrete inputs. Its allocator hands out at most \<open>capacity\<close> bytes (the spec's
  zero-capacity allocator is \<open>capacity = 0\<close>) and refuses a negative length; its
  \<^verbatim>\<open>GetEnv\<close> follows the JNI specification: \<^verbatim>\<open>JNI_EVERSION\<close> and a \<open>NULL\<close>
  slot for a version the runtime does not support, \<^verbatim>\<open>JNI_EDETACHED\<close> and a
  \<open>NULL\<close> slot on a thread that is not attached, \<^verbatim>\<open>JNI_OK\<close> and the environment
  handle otherwise.
\<close>

record jvm =
  attached :: bool
  capacity :: nat
  next_ref :: ptr
  arrays :: "ptr \<Rightarrow> jbyte list option"
  pinned :: "ptr \<Rightarrow> ptr"
  class_of :: "ptr \<Rightarrow> ptr"
  method_of :: "ptr \<Rightarrow> string \<Rightarrow> string \<Rightarrow> ptr"
  invoked :: "(ptr \<times> ptr) list"

definition the_vm :: ptr where
  "the_vm = 4096"

definition the_env :: ptr where
  "the_env = 8192"

definition ref_NewByteArray :: "jsize \<Rightarrow> jvm \<Rightarrow> ptr \<times> jvm" where
  "ref_NewByteArray n s =
     (if 0 \<le> sint n \<and> nat (sint n) \<le> capacity s
      then (Suc (next_ref s),
            s\<lparr>capacity := capacity s - nat (sint n),
              next_ref := Suc (next_ref s),
              arrays := (arrays s)(Suc (next_ref s) \<mapsto> replicate (nat (sint n)) 0)\<rparr>)
      else (NULL, s))"

definition ref_SetByteArrayRegion ::
  "ptr \<Rightarrow> jsize \<Rightarrow> jsize \<Rightarrow> ptr \<Rightarrow> memory \<Rightarrow> jvm \<Rightarrow> jvm" where
  "ref_SetByteArrayRegion a start len buf mem s =
     (case arrays s a of
        None \<Rightarrow> s
      | Some xs \<Rightarrow>
          if 0 \<le> sint start \<and> 0 \<le> sint len \<and> sint start + sint len \<le> int (length xs)
          then s\<lparr>arrays := (arrays s)(a \<mapsto>
                 take (nat (sint start)) xs @ buffer_bytes mem buf (nat (sint len)) @
                 drop (nat (sint start + sint len)) xs)\<rparr>
          else s)"

definition ref_GetArrayLength :: "ptr \<Rightarrow> jvm \<Rightarrow> jsize \<times> jvm" where
  "ref_GetArrayLength a s =
     (case arrays s a of None \<Rightarrow> (0, s) | Some xs \<Rightarrow> (of_nat (length xs), s))"

definition ref_env :: "jvm JNINativeInterface" where
  "ref_env = \<lparr>
     env_GetJavaVM = (\<lambda>vm s. ((JNI_OK, the_vm), s)),
     env_GetObjectClass = (\<lambda>obj s. (class_of s obj, s)),
     env_GetMethodID = (\<lambda>cls name sig s. (method_of s cls name sig, s)),
     env_CallVoidMethod = (\<lambda>obj mid s. s\<lparr>invoked := invoked s @ [(obj, mid)]\<rparr>),
     env_GetArrayLength = ref_GetArrayLength,
     env_GetByteArrayElements = (\<lambda>a isCopy s. (pinned s a, s)),
     env_NewByteArray = ref_NewByteArray,
     env_SetByteArrayRegion = ref_SetByteArrayRegion \<rparr>"

definition ref_vm :: "jint \<Rightarrow> jvm JNIInvokeInterface" where
  "ref_vm newest = \<lparr>
     vm_GetEnv = (\<lambda>p v s.
       if sint newest < sint v then ((JNI_EVERSION, NULL), s)
       else if \<not> attached s then ((JNI_EDETACHED, NULL), s)
       else ((JNI_OK, the_env), s)),
     vm_AttachCurrentThread = (\<lambda>p a s. ((JNI_OK, the_env), s\<lparr>attached := True\<rparr>)),
     vm_DetachCurrentThread = (\<lambda>s.
       if attached s then (JNI_OK, s\<lparr>attached := False\<rparr>) else (JNI_ERR, s)) \<rparr>"

text \<open>A runtime with room for 16 bytes, no array yet, on a thread that is not attached.\<close>

definition jvm0 :: jvm where
  "jvm0 = \<lparr> attached = False, capacity = 16, next_ref = 0, arrays = (\<lambda>a. None),
            pinned = (\<lambda>a. NULL), class_of = (\<lambda>obj. NULL),
            method_of = (\<lambda>cls name sig. NULL), invoked = [] \<rparr>"

text \<open>The buffer of the spec's concrete scenario, \<open>[0x41, 0x00, 0xFF]\<close>, at address 100.\<close>

definition mem0 :: memory where
  "mem0 = (\<lambda>a. if a = 100 then 0x41 else if a = 101 then 0x00 else if a = 102 then 0xFF else 0)"

definition d0 :: CData where
  "d0 = \<lparr> data = 100, count = 3 \<rparr>"

text \<open>The same buffer address with the largest count an \<^verbatim>\<open>unsigned int\<close> holds.\<close>

definition d_max :: CData where
  "d_max = \<lparr> data = 100, count = 0xFFFFFFFF \<rparr>"

text \<open>The runtime with a zero-capacity allocator.\<close>

definition jvm_full :: jvm where
  "jvm_full = jvm0\<lparr>capacity := 0\<rparr>"

text \<open>The runtime holding one byte array, of five elements, under the reference 1.\<close>

definition jvm1 :: jvm where
  "jvm1 = jvm0\<lparr>capacity := 11, next_ref := 1,
            arrays := (\<lambda>a. if a = 1 then Some [1, 2, 3, 4, 5] else None)\<rparr>"

text \<open>The runtime in which the object 7 has the class 20, a class with no method.\<close>

definition jvm_obj :: jvm where
  "jvm_obj = jvm0\<lparr>class_of := (\<lambda>obj. if obj = 7 then 20 else NULL)\<rparr>"

section \<open>Properties\<close>

subsection \<open>The conversion of the count\<close>

lemma sint_wrap:
  fixes x :: int
  assumes "0 \<le> x" and "x < 4294967296"
  shows "(x + 2147483648) mod 4294967296 - 2147483648 =
           (if x < 2147483648 then x else x - 4294967296)"
proof (cases "x < 2147483648")
  case True
  with assms show ?thesis by simp
next
  case False
  with assms have "0 \<le> x - 2147483648" and "x - 2147483648 < 4294967296"
    by simp_all
  then have small: "(x - 2147483648) mod 4294967296 = x - 2147483648"
    by (rule mod_pos_pos_trivial)
  have shift: "x + 2147483648 = (x - 2147483648) + 4294967296"
    by arith
  have "(x + 2147483648) mod 4294967296 = (x - 2147483648) mod 4294967296"
    unfolding shift by (rule mod_add_self2)
  with small False show ?thesis by simp
qed

lemma unat_32_bound:
  fixes c :: "32 word"
  shows "unat c < 4294967296"
  using unsigned_less [of c, where 'a = nat] by simp

lemma sint_32:
  fixes c :: "32 word"
  shows "sint c = (if unat c < 2147483648 then int (unat c) else int (unat c) - 4294967296)"
proof -
  have u: "uint c = int (unat c)"
    by simp
  have lt: "(uint c < 2147483648) = (unat c < 2147483648)"
    unfolding u by linarith
  have "sint c = (uint c + 2147483648) mod 4294967296 - 2147483648"
    using int_word_sint [of "uint c", where 'a = 32] by simp
  also have "\<dots> = (if uint c < 2147483648 then uint c else uint c - 4294967296)"
    using uint_lt2p [of c] by (intro sint_wrap) simp_all
  also have "\<dots> = (if unat c < 2147483648 then int (unat c) else int (unat c) - 4294967296)"
    unfolding lt by (simp only: u)
  finally show ?thesis .
qed

lemma sint_jsize_of_uint:
  "sint (jsize_of_uint c) = (if unat c < 2 ^ 31 then int (unat c) else int (unat c) - 2 ^ 32)"
  by (simp add: jsize_of_uint_def sint_32 [of c])

lemma sint_of_nat_32:
  assumes "n < 2 ^ 31"
  shows "sint (of_nat n :: 32 word) = int n"
proof -
  have "sint (of_nat n :: 32 word) = signed_take_bit 31 (int n)"
    by (simp add: signed_of_nat)
  also have "\<dots> = int n"
  proof (rule signed_take_bit_int_eq_self)
    show "- (2 ^ 31) \<le> int n"
      by simp
    from assms have "int n < int (2 ^ 31)"
      by (simp only: of_nat_less_iff)
    then show "int n < 2 ^ 31"
      by simp
  qed
  finally show ?thesis .
qed

lemma jsize_of_uint_nonneg:
  assumes "0 \<le> sint (jsize_of_uint c)"
  shows "nat (sint (jsize_of_uint c)) = unat c" and "unat c < 2 ^ 31"
  using assms unat_32_bound [of c]
  by (simp_all add: jsize_of_uint_def sint_32 [of c] split: if_splits)

subsection \<open>The calls of each shim function\<close>

lemma logged_apply: "logged c f (tr, s) = (fst (f s), (tr @ [c], snd (f s)))"
  by (simp add: logged_def split: prod.splits)

lemma logged_void_apply: "logged_void c f (tr, s) = (tr @ [c], f s)"
  by (simp add: logged_void_def)

lemma GetJVM_traced:
  "GetJVM (traced_env env) vm (tr, s) =
     (fst (GetJVM env vm s), (tr @ [Call_GetJavaVM vm], snd (GetJVM env vm s)))"
  by (simp add: GetJVM_def traced_env_def logged_apply split: prod.splits)

lemma GetJNIEnv_traced:
  "GetJNIEnv (traced_vm vm) p (tr, s) =
     (fst (GetJNIEnv vm p s), (tr @ [Call_GetEnv p JNI_VERSION_1_6], snd (GetJNIEnv vm p s)))"
  by (simp add: GetJNIEnv_def traced_vm_def logged_apply split: prod.splits)

lemma AttachCurrentThread_traced:
  "AttachCurrentThread (traced_vm vm) p (tr, s) =
     (fst (AttachCurrentThread vm p s),
      (tr @ [Call_AttachCurrentThread p NULL], snd (AttachCurrentThread vm p s)))"
  by (simp add: AttachCurrentThread_def traced_vm_def logged_apply split: prod.splits)

lemma DetachCurrentThread_traced:
  "DetachCurrentThread (traced_vm vm) (tr, s) =
     (tr @ [Call_DetachCurrentThread], DetachCurrentThread vm s)"
  by (simp add: DetachCurrentThread_def traced_vm_def logged_apply split: prod.splits)

lemma CallVoidMethod_traced:
  "CallVoidMethod (traced_env env) obj name sig (tr, s) =
     (tr @ [Call_GetObjectClass obj,
            Call_GetMethodID (fst (env_GetObjectClass env obj s)) name sig,
            Call_CallVoidMethod obj
              (fst (env_GetMethodID env (fst (env_GetObjectClass env obj s)) name sig
                      (snd (env_GetObjectClass env obj s))))],
      CallVoidMethod env obj name sig s)"
  by (simp add: CallVoidMethod_def traced_env_def logged_apply logged_void_apply split: prod.splits)

lemma GetArrayLength_traced:
  "GetArrayLength (traced_env env) cls a (tr, s) =
     (fst (GetArrayLength env cls a s),
      (tr @ [Call_GetArrayLength a], snd (GetArrayLength env cls a s)))"
  by (simp add: GetArrayLength_def traced_env_def logged_apply split: prod.splits)

lemma GetByteArrayElements_traced:
  "GetByteArrayElements (traced_env env) cls a (tr, s) =
     (fst (GetByteArrayElements env cls a s),
      (tr @ [Call_GetByteArrayElements a NULL], snd (GetByteArrayElements env cls a s)))"
  by (simp add: GetByteArrayElements_def traced_env_def logged_apply split: prod.splits)

lemma data_SwiftToJava_traced:
  "data_SwiftToJava (traced_env env) d mem (tr, s) =
     (fst (data_SwiftToJava env d mem s),
      (tr @ (if fst (env_NewByteArray env (jsize_of_uint (count d)) s) = NULL
             then [Call_NewByteArray (jsize_of_uint (count d))]
             else [Call_NewByteArray (jsize_of_uint (count d)),
                   Call_SetByteArrayRegion (fst (env_NewByteArray env (jsize_of_uint (count d)) s))
                     0 (jsize_of_uint (count d)) (data d)]),
       snd (data_SwiftToJava env d mem s)))"
  by (simp add: data_SwiftToJava_def traced_env_def logged_apply logged_void_apply split: prod.splits)


subsection \<open>Buffers, the reference runtime and the two paths of the conversion\<close>

lemma length_buffer_bytes: "length (buffer_bytes mem p n) = n"
  by (simp add: buffer_bytes_def)

lemma nth_buffer_bytes: "i < n \<Longrightarrow> buffer_bytes mem p n ! i = mem (p + i)"
  by (simp add: buffer_bytes_def)

lemma ref_env_contract: "jni_array_contract ref_env arrays"
  unfolding jni_array_contract_def
  by (auto simp: ref_env_def ref_NewByteArray_def ref_SetByteArrayRegion_def ref_GetArrayLength_def)

lemma data_SwiftToJava_success:
  assumes "fst (env_NewByteArray env (jsize_of_uint (count d)) s) \<noteq> NULL"
  shows "data_SwiftToJava env d mem s =
     (fst (env_NewByteArray env (jsize_of_uint (count d)) s),
      env_SetByteArrayRegion env (fst (env_NewByteArray env (jsize_of_uint (count d)) s)) 0
        (jsize_of_uint (count d)) (data d) mem
        (snd (env_NewByteArray env (jsize_of_uint (count d)) s)))"
  using assms by (cases "env_NewByteArray env (jsize_of_uint (count d)) s") (simp add: data_SwiftToJava_def)

lemma data_SwiftToJava_failure:
  assumes "fst (env_NewByteArray env (jsize_of_uint (count d)) s) = NULL"
  shows "data_SwiftToJava env d mem s =
     (NULL, snd (env_NewByteArray env (jsize_of_uint (count d)) s))"
  using assms by (cases "env_NewByteArray env (jsize_of_uint (count d)) s") (simp add: data_SwiftToJava_def)

lemma buffer0: "buffer_bytes mem0 (data d0) (unat (count d0)) = [0x41, 0x00, 0xFF]"
  by (simp add: buffer_bytes_def mem0_def d0_def upt_rec)

section \<open>The claims\<close>

subsection \<open>C1: the conversion of a buffer to a byte array\<close>

text \<open>
  C1. For every native buffer with pointer \<open>p\<close> and count \<open>C\<close>, when the allocation of
  the managed byte array succeeds, \<open>data_SwiftToJava\<close> returns the allocated array, the
  array has exactly \<open>C\<close> elements, and its elements are the bytes
  \<open>p[0], ..., p[C - 1]\<close> of the buffer, the copy being one call of
  \<^verbatim>\<open>SetByteArrayRegion\<close> at offset 0 for \<open>C\<close> elements; reading the length back
  through \<open>GetArrayLength\<close> gives \<open>C\<close>. The runtime is any runtime that meets
  \<open>jni_array_contract\<close>. Under that contract an allocation that succeeds was asked for a
  length that is not negative, so the count is at most \<open>2 ^ 31 - 1\<close> there and the
  conversion to \<^verbatim>\<open>jsize\<close> keeps it.
\<close>

theorem data_SwiftToJava_roundtrip:
  assumes contract: "jni_array_contract env arr"
    and alloc: "fst (env_NewByteArray env (jsize_of_uint (count d)) s) \<noteq> NULL"
  shows "fst (data_SwiftToJava env d mem s) =
           fst (env_NewByteArray env (jsize_of_uint (count d)) s) \<and>
         snd (data_SwiftToJava env d mem s) =
           env_SetByteArrayRegion env (fst (data_SwiftToJava env d mem s)) 0
             (jsize_of_uint (count d)) (data d) mem
             (snd (env_NewByteArray env (jsize_of_uint (count d)) s)) \<and>
         arr (snd (data_SwiftToJava env d mem s)) (fst (data_SwiftToJava env d mem s)) =
           Some (buffer_bytes mem (data d) (unat (count d))) \<and>
         length (buffer_bytes mem (data d) (unat (count d))) = unat (count d) \<and>
         sint (fst (GetArrayLength env cls (fst (data_SwiftToJava env d mem s))
                      (snd (data_SwiftToJava env d mem s)))) = int (unat (count d))"
proof -
  let ?n = "jsize_of_uint (count d)"
  let ?ret = "fst (env_NewByteArray env ?n s)"
  let ?s1 = "snd (env_NewByteArray env ?n s)"
  let ?s2 = "env_SetByteArrayRegion env ?ret 0 ?n (data d) mem ?s1"
  have run: "data_SwiftToJava env d mem s = (?ret, ?s2)"
    using alloc by (rule data_SwiftToJava_success)
  from contract alloc have nonneg: "0 \<le> sint ?n"
    and fresh: "arr ?s1 ?ret = Some (replicate (nat (sint ?n)) 0)"
    unfolding jni_array_contract_def by blast+
  from nonneg have len: "nat (sint ?n) = unat (count d)" and small: "unat (count d) < 2 ^ 31"
    by (rule jsize_of_uint_nonneg)+
  from contract have copy: "\<And>a start len buf s xs.
      arr s a = Some xs \<Longrightarrow> 0 \<le> sint start \<Longrightarrow> 0 \<le> sint len \<Longrightarrow>
      sint start + sint len \<le> int (length xs) \<Longrightarrow>
      arr (env_SetByteArrayRegion env a start len buf mem s) a =
        Some (take (nat (sint start)) xs @ buffer_bytes mem buf (nat (sint len)) @
              drop (nat (sint start + sint len)) xs)"
    unfolding jni_array_contract_def by blast
  have "arr ?s2 ?ret =
      Some (take (nat (sint (0 :: jsize))) (replicate (nat (sint ?n)) 0) @
            buffer_bytes mem (data d) (nat (sint ?n)) @
            drop (nat (sint (0 :: jsize) + sint ?n)) (replicate (nat (sint ?n)) 0))"
    using fresh nonneg by (intro copy) simp_all
  then have stored: "arr ?s2 ?ret = Some (buffer_bytes mem (data d) (unat (count d)))"
    by (simp add: len)
  from contract stored have "env_GetArrayLength env ?ret ?s2 =
      (of_nat (length (buffer_bytes mem (data d) (unat (count d)))), ?s2)"
    unfolding jni_array_contract_def by blast
  then have "fst (GetArrayLength env cls ?ret ?s2) = (of_nat (unat (count d)) :: 32 word)"
    by (simp add: GetArrayLength_def length_buffer_bytes)
  then have "sint (fst (GetArrayLength env cls ?ret ?s2)) = sint (jsize_of_uint (count d))"
    by (simp add: jsize_of_uint_def)
  then have readback: "sint (fst (GetArrayLength env cls ?ret ?s2)) = int (unat (count d))"
    using small by (simp add: sint_jsize_of_uint)
  show ?thesis
    using run stored readback by (simp add: length_buffer_bytes)
qed

text \<open>
  The spec's concrete scenario on the reference runtime: the buffer
  \<open>[0x41, 0x00, 0xFF]\<close> with count 3 becomes the array of reference 1 with these
  three elements.
\<close>

theorem data_SwiftToJava_roundtrip_witness:
  "jni_array_contract ref_env arrays \<and>
   fst (env_NewByteArray ref_env (jsize_of_uint (count d0)) jvm0) \<noteq> NULL \<and>
   fst (data_SwiftToJava ref_env d0 mem0 jvm0) = 1 \<and>
   arrays (snd (data_SwiftToJava ref_env d0 mem0 jvm0)) 1 = Some [0x41, 0x00, 0xFF] \<and>
   sint (fst (GetArrayLength ref_env 0 1 (snd (data_SwiftToJava ref_env d0 mem0 jvm0)))) = 3"
proof -
  have alloc: "fst (env_NewByteArray ref_env (jsize_of_uint (count d0)) jvm0) = 1"
    by (simp add: ref_env_def ref_NewByteArray_def jsize_of_uint_def d0_def jvm0_def)
  then have ok: "fst (env_NewByteArray ref_env (jsize_of_uint (count d0)) jvm0) \<noteq> NULL"
    by simp
  note r = data_SwiftToJava_roundtrip [OF ref_env_contract ok, of mem0 0]
  from r have ret: "fst (data_SwiftToJava ref_env d0 mem0 jvm0) = 1"
    unfolding alloc by (elim conjE)
  from r have elems: "arrays (snd (data_SwiftToJava ref_env d0 mem0 jvm0)) 1 =
      Some [0x41, 0x00, 0xFF]"
    unfolding ret buffer0 by (elim conjE)
  have three: "int (unat (count d0)) = 3"
    by (simp add: d0_def)
  from r have len: "sint (fst (GetArrayLength ref_env 0 1
      (snd (data_SwiftToJava ref_env d0 mem0 jvm0)))) = 3"
    unfolding ret three by (elim conjE)
  from ok ret elems len show ?thesis
    by (simp only: ref_env_contract simp_thms)
qed

subsection \<open>C2: the allocation guard\<close>

text \<open>
  C2. For every input of \<open>data_SwiftToJava\<close> and every runtime, the result is
  \<open>NULL\<close> exactly when \<^verbatim>\<open>NewByteArray\<close> returned \<open>NULL\<close>; and when it did, the
  function returns \<open>NULL\<close> with the state the failed allocation left, its only call
  being the one of \<^verbatim>\<open>NewByteArray\<close>: \<^verbatim>\<open>SetByteArrayRegion\<close> is not called,
  so nothing is copied.
\<close>

theorem data_SwiftToJava_allocation_guard:
  "(fst (data_SwiftToJava env d mem s) = NULL) =
     (fst (env_NewByteArray env (jsize_of_uint (count d)) s) = NULL) \<and>
   (fst (env_NewByteArray env (jsize_of_uint (count d)) s) = NULL \<longrightarrow>
      data_SwiftToJava env d mem s =
        (NULL, snd (env_NewByteArray env (jsize_of_uint (count d)) s)) \<and>
      calls_data_SwiftToJava env d mem s = [Call_NewByteArray (jsize_of_uint (count d))] \<and>
      SetByteArrayRegion_entry \<notin> set (map entry_of (calls_data_SwiftToJava env d mem s)))"
proof (cases "fst (env_NewByteArray env (jsize_of_uint (count d)) s) = NULL")
  case True
  then show ?thesis
    by (simp add: data_SwiftToJava_failure calls_data_SwiftToJava_def data_SwiftToJava_traced)
next
  case False
  then show ?thesis
    by (simp add: data_SwiftToJava_success)
qed

text \<open>The zero-capacity allocator of the reference runtime, asked for three bytes.\<close>

theorem data_SwiftToJava_allocation_guard_witness:
  "fst (env_NewByteArray ref_env (jsize_of_uint (count d0)) jvm_full) = NULL \<and>
   data_SwiftToJava ref_env d0 mem0 jvm_full = (NULL, jvm_full) \<and>
   calls_data_SwiftToJava ref_env d0 mem0 jvm_full = [Call_NewByteArray 3]"
proof -
  have fails: "env_NewByteArray ref_env (jsize_of_uint (count d0)) jvm_full = (NULL, jvm_full)"
    by (simp add: ref_env_def ref_NewByteArray_def jsize_of_uint_def d0_def jvm_full_def jvm0_def)
  have three: "jsize_of_uint (count d0) = 3"
    by (simp add: jsize_of_uint_def d0_def)
  from data_SwiftToJava_allocation_guard [of ref_env d0 mem0 jvm_full] fails three
  show ?thesis
    by simp
qed

subsection \<open>C3: the status codes of get-env, attach and detach\<close>

text \<open>
  C3 as stated says that \<open>GetJNIEnv\<close>, \<open>AttachCurrentThread\<close> and
  \<open>DetachCurrentThread\<close> return the runtime's status code to the caller unchanged, so
  that the caller sees a failure apart from a success. The three functions are declared
  \<^verbatim>\<open>void\<close> in Helpers.h and Helpers.cpp and drop the value of the call they make.
  If the caller could read the status off what it receives, two runs that hand the
  caller the same thing would have the same status. They do not:
  \<^item> on a thread that is not attached, \<^verbatim>\<open>GetEnv\<close> of a runtime that supports
    version 1.6 answers \<^verbatim>\<open>JNI_EDETACHED\<close>, and of a runtime that supports nothing
    newer than 1.4 answers \<^verbatim>\<open>JNI_EVERSION\<close>; \<open>GetJNIEnv\<close> gives the caller the
    same \<open>NULL\<close> slot and the same runtime state in both runs;
  \<^item> \<^verbatim>\<open>DetachCurrentThread\<close> answers \<^verbatim>\<open>JNI_OK\<close> on an attached thread and
    \<^verbatim>\<open>JNI_ERR\<close> on a thread that is not attached; the shim's
    \<open>DetachCurrentThread\<close> ends in the same state in both runs and returns nothing.
\<close>

theorem status_code_not_returned_counterexample:
  "GetJNIEnv (ref_vm JNI_VERSION_1_6) NULL jvm0 = GetJNIEnv (ref_vm JNI_VERSION_1_4) NULL jvm0 \<and>
   fst (fst (vm_GetEnv (ref_vm JNI_VERSION_1_6) NULL JNI_VERSION_1_6 jvm0)) = JNI_EDETACHED \<and>
   fst (fst (vm_GetEnv (ref_vm JNI_VERSION_1_4) NULL JNI_VERSION_1_6 jvm0)) = JNI_EVERSION \<and>
   JNI_EDETACHED \<noteq> JNI_EVERSION \<and>
   DetachCurrentThread (ref_vm JNI_VERSION_1_6) (jvm0\<lparr>attached := True\<rparr>) =
     DetachCurrentThread (ref_vm JNI_VERSION_1_6) jvm0 \<and>
   fst (vm_DetachCurrentThread (ref_vm JNI_VERSION_1_6) (jvm0\<lparr>attached := True\<rparr>)) = JNI_OK \<and>
   fst (vm_DetachCurrentThread (ref_vm JNI_VERSION_1_6) jvm0) = JNI_ERR \<and>
   JNI_OK \<noteq> JNI_ERR"
  by (simp add: GetJNIEnv_def DetachCurrentThread_def ref_vm_def jvm0_def
      JNI_VERSION_1_6_def JNI_VERSION_1_4_def JNI_EDETACHED_def JNI_EVERSION_def
      JNI_OK_def JNI_ERR_def)

text \<open>
  C3, amended. For every call of \<open>GetJNIEnv\<close>, \<open>AttachCurrentThread\<close> and
  \<open>DetachCurrentThread\<close> the shim makes the one call of the runtime and discards the
  status code: the caller receives the content the runtime left in the output slot
  (get-env and attach) or nothing (detach), beside the effect of the call on the
  runtime, and receives the same whatever status codes the runtime reports
  (\<open>map_status f\<close> replaces every code \<open>rc\<close> by \<open>f rc\<close>).
\<close>

theorem status_code_discarded:
  "GetJNIEnv vm p_env s =
     (snd (fst (vm_GetEnv vm p_env JNI_VERSION_1_6 s)), snd (vm_GetEnv vm p_env JNI_VERSION_1_6 s)) \<and>
   AttachCurrentThread vm p_env s =
     (snd (fst (vm_AttachCurrentThread vm p_env NULL s)),
      snd (vm_AttachCurrentThread vm p_env NULL s)) \<and>
   DetachCurrentThread vm s = snd (vm_DetachCurrentThread vm s) \<and>
   GetJNIEnv (map_status f vm) p_env s = GetJNIEnv vm p_env s \<and>
   AttachCurrentThread (map_status f vm) p_env s = AttachCurrentThread vm p_env s \<and>
   DetachCurrentThread (map_status f vm) s = DetachCurrentThread vm s \<and>
   calls_GetJNIEnv vm p_env s = [Call_GetEnv p_env JNI_VERSION_1_6] \<and>
   calls_AttachCurrentThread vm p_env s = [Call_AttachCurrentThread p_env NULL] \<and>
   calls_DetachCurrentThread vm s = [Call_DetachCurrentThread]"
  by (simp add: GetJNIEnv_def AttachCurrentThread_def DetachCurrentThread_def map_status_def
      calls_GetJNIEnv_def calls_AttachCurrentThread_def calls_DetachCurrentThread_def
      traced_vm_def logged_apply split: prod.splits)

subsection \<open>C4: the steps of the void-method invocation\<close>

text \<open>
  C4. For every environment, target object, name and signature, \<open>CallVoidMethod\<close>
  makes exactly three calls, in this order: \<^verbatim>\<open>GetObjectClass\<close> on the target object,
  \<^verbatim>\<open>GetMethodID\<close> with the class that call returned, the name and the signature,
  and \<^verbatim>\<open>CallVoidMethod\<close> on the target object with the method identifier that
  lookup returned, whatever it is: nothing is tested between the lookup and the
  invocation, so a \<open>NULL\<close> identifier is passed on as it is. The function returns
  nothing but the state the invocation leaves.
\<close>

theorem CallVoidMethod_steps:
  assumes "env_GetObjectClass env thisClass s = (jc, s1)"
    and "env_GetMethodID env jc name sig s1 = (midCallBack, s2)"
  shows "CallVoidMethod (traced_env env) thisClass name sig (tr, s) =
           (tr @ [Call_GetObjectClass thisClass,
                  Call_GetMethodID jc name sig,
                  Call_CallVoidMethod thisClass midCallBack],
            env_CallVoidMethod env thisClass midCallBack s2) \<and>
         CallVoidMethod env thisClass name sig s =
           env_CallVoidMethod env thisClass midCallBack s2"
  using assms by (simp add: CallVoidMethod_traced) (simp add: CallVoidMethod_def)

text \<open>
  On the reference runtime \<open>jvm_obj\<close> the class of the object has no method
  \<^verbatim>\<open>run\<close>: the lookup returns \<open>NULL\<close> and the invocation is made with it.
\<close>

theorem CallVoidMethod_steps_witness:
  "env_GetObjectClass ref_env 7 jvm_obj = (20, jvm_obj) \<and>
   env_GetMethodID ref_env 20 ''run'' ''()V'' jvm_obj = (NULL, jvm_obj) \<and>
   CallVoidMethod (traced_env ref_env) 7 ''run'' ''()V'' ([], jvm_obj) =
     ([Call_GetObjectClass 7, Call_GetMethodID 20 ''run'' ''()V'', Call_CallVoidMethod 7 NULL],
      jvm_obj\<lparr>invoked := [(7, NULL)]\<rparr>)"
proof -
  have cls: "env_GetObjectClass ref_env 7 jvm_obj = (20, jvm_obj)"
    by (simp add: ref_env_def jvm_obj_def jvm0_def)
  have mid: "env_GetMethodID ref_env 20 ''run'' ''()V'' jvm_obj = (NULL, jvm_obj)"
    by (simp add: ref_env_def jvm_obj_def jvm0_def)
  have call: "env_CallVoidMethod ref_env 7 NULL jvm_obj = jvm_obj\<lparr>invoked := [(7, NULL)]\<rparr>"
    by (simp add: ref_env_def jvm_obj_def jvm0_def)
  from CallVoidMethod_steps [OF cls mid, of "[]"] cls mid call show ?thesis
    by simp
qed

subsection \<open>C5: the length of an array\<close>

text \<open>
  C5. For every byte-array reference whose array has \<open>N\<close> elements, \<open>GetArrayLength\<close>
  returns exactly \<open>N\<close>, read as a signed integer, and changes nothing: the state after
  the call is the state before it, and the only call made is the one of
  \<^verbatim>\<open>GetArrayLength\<close>. The runtime is any runtime that meets
  \<open>jni_array_contract\<close>; \<open>N\<close> ranges over the lengths a \<^verbatim>\<open>jsize\<close> holds,
  \<open>0 \<le> N < 2 ^ 31\<close>.
\<close>

theorem GetArrayLength_exact:
  assumes "jni_array_contract env arr"
    and "arr s bArray = Some xs"
    and "length xs < 2 ^ 31"
  shows "sint (fst (GetArrayLength env thisClass bArray s)) = int (length xs) \<and>
         snd (GetArrayLength env thisClass bArray s) = s \<and>
         calls_GetArrayLength env thisClass bArray s = [Call_GetArrayLength bArray]"
proof -
  from assms(1,2) have "env_GetArrayLength env bArray s = (of_nat (length xs), s)"
    unfolding jni_array_contract_def by blast
  then have run: "GetArrayLength env thisClass bArray s = (of_nat (length xs), s)"
    by (simp add: GetArrayLength_def)
  have "sint (of_nat (length xs) :: 32 word) = int (length xs)"
    using assms(3) by (rule sint_of_nat_32)
  with run show ?thesis
    by (simp add: calls_GetArrayLength_def GetArrayLength_traced)
qed

text \<open>The array of five elements of the reference runtime \<open>jvm1\<close>.\<close>

theorem GetArrayLength_exact_witness:
  "jni_array_contract ref_env arrays \<and> arrays jvm1 1 = Some [1, 2, 3, 4, 5] \<and>
   length [1, 2, 3, 4, 5 :: jbyte] < 2 ^ 31 \<and>
   sint (fst (GetArrayLength ref_env 9 1 jvm1)) = 5 \<and>
   snd (GetArrayLength ref_env 9 1 jvm1) = jvm1"
proof -
  have live: "arrays jvm1 1 = Some [1, 2, 3, 4, 5]"
    by (simp add: jvm1_def)
  have short: "length [1, 2, 3, 4, 5 :: jbyte] < 2 ^ 31"
    by simp
  from GetArrayLength_exact [OF ref_env_contract live short, of 9] live
  show ?thesis
    by (simp add: ref_env_contract)
qed

subsection \<open>C6: the class handle is not used\<close>

text \<open>
  C6. For every environment and byte-array reference and any two values of the
  class-handle parameter, \<open>GetArrayLength\<close> and \<open>GetByteArrayElements\<close> return the same
  result and leave the same state, and make the same calls (the runs on the logging
  table are equal, log included).
\<close>

theorem class_handle_unused:
  "GetArrayLength env thisClass bArray s = GetArrayLength env thisClass' bArray s \<and>
   GetByteArrayElements env thisClass bArray s = GetByteArrayElements env thisClass' bArray s \<and>
   GetArrayLength (traced_env env) thisClass bArray (tr, s) =
     GetArrayLength (traced_env env) thisClass' bArray (tr, s) \<and>
   GetByteArrayElements (traced_env env) thisClass bArray (tr, s) =
     GetByteArrayElements (traced_env env) thisClass' bArray (tr, s)"
  by (simp add: GetArrayLength_def GetByteArrayElements_def)

subsection \<open>C7: the element pointer is requested without a hint\<close>

text \<open>
  C7. For every call, \<open>GetByteArrayElements\<close> makes one call of
  \<^verbatim>\<open>GetByteArrayElements\<close> on the array with a \<open>NULL\<close> is-copy pointer, and
  returns the pointer (and the state) that call returned, unchanged.
\<close>

theorem GetByteArrayElements_no_hint:
  "GetByteArrayElements (traced_env env) thisClass bArray (tr, s) =
     (fst (env_GetByteArrayElements env bArray NULL s),
      (tr @ [Call_GetByteArrayElements bArray NULL],
       snd (env_GetByteArrayElements env bArray NULL s))) \<and>
   GetByteArrayElements env thisClass bArray s = env_GetByteArrayElements env bArray NULL s"
  by (simp add: GetByteArrayElements_traced) (simp add: GetByteArrayElements_def)

subsection \<open>C8: one attempt per call, and no state of the shim's own\<close>

text \<open>
  C8. For every shim function, every runtime and every input:
  \<^item> the entries called in one run are the function's own and each is called once:
    one call of the entry the function wraps for the six plain forwarders; class
    lookup, method lookup and invocation, once each, for \<open>CallVoidMethod\<close>; one
    allocation for \<open>data_SwiftToJava\<close>, followed by one copy when the allocation
    succeeded. No entry is called a second time;
  \<^item> the run does not depend on what was called before: started with any log \<open>tr\<close> of
    earlier calls, it returns the result and the runtime state of the run on the plain
    table, and appends to \<open>tr\<close> the calls it makes from an empty log. The result is a
    function of the arguments and of the runtime's table and state alone; the shim is
    polymorphic in the runtime state and carries nothing from one call to the next.
\<close>

theorem shim_single_attempt_stateless:
  "GetJVM (traced_env env) p_vm (tr, s) =
     (fst (GetJVM env p_vm s), (tr @ calls_GetJVM env p_vm s, snd (GetJVM env p_vm s))) \<and>
   map entry_of (calls_GetJVM env p_vm s) = [GetJavaVM_entry] \<and>
   GetJNIEnv (traced_vm vm) p_env (tr, t) =
     (fst (GetJNIEnv vm p_env t), (tr @ calls_GetJNIEnv vm p_env t, snd (GetJNIEnv vm p_env t))) \<and>
   map entry_of (calls_GetJNIEnv vm p_env t) = [GetEnv_entry] \<and>
   AttachCurrentThread (traced_vm vm) p_env (tr, t) =
     (fst (AttachCurrentThread vm p_env t),
      (tr @ calls_AttachCurrentThread vm p_env t, snd (AttachCurrentThread vm p_env t))) \<and>
   map entry_of (calls_AttachCurrentThread vm p_env t) = [AttachCurrentThread_entry] \<and>
   DetachCurrentThread (traced_vm vm) (tr, t) =
     (tr @ calls_DetachCurrentThread vm t, DetachCurrentThread vm t) \<and>
   map entry_of (calls_DetachCurrentThread vm t) = [DetachCurrentThread_entry] \<and>
   CallVoidMethod (traced_env env) thisClass name sig (tr, s) =
     (tr @ calls_CallVoidMethod env thisClass name sig s, CallVoidMethod env thisClass name sig s) \<and>
   map entry_of (calls_CallVoidMethod env thisClass name sig s) =
     [GetObjectClass_entry, GetMethodID_entry, CallVoidMethod_entry] \<and>
   GetArrayLength (traced_env env) thisClass bArray (tr, s) =
     (fst (GetArrayLength env thisClass bArray s),
      (tr @ calls_GetArrayLength env thisClass bArray s,
       snd (GetArrayLength env thisClass bArray s))) \<and>
   map entry_of (calls_GetArrayLength env thisClass bArray s) = [GetArrayLength_entry] \<and>
   GetByteArrayElements (traced_env env) thisClass bArray (tr, s) =
     (fst (GetByteArrayElements env thisClass bArray s),
      (tr @ calls_GetByteArrayElements env thisClass bArray s,
       snd (GetByteArrayElements env thisClass bArray s))) \<and>
   map entry_of (calls_GetByteArrayElements env thisClass bArray s) =
     [GetByteArrayElements_entry] \<and>
   data_SwiftToJava (traced_env env) d mem (tr, s) =
     (fst (data_SwiftToJava env d mem s),
      (tr @ calls_data_SwiftToJava env d mem s, snd (data_SwiftToJava env d mem s))) \<and>
   map entry_of (calls_data_SwiftToJava env d mem s) =
     (if fst (data_SwiftToJava env d mem s) = NULL then [NewByteArray_entry]
      else [NewByteArray_entry, SetByteArrayRegion_entry])"
proof -
  have alloc: "(fst (data_SwiftToJava env d mem s) = NULL) =
      (fst (env_NewByteArray env (jsize_of_uint (count d)) s) = NULL)"
    by (cases "fst (env_NewByteArray env (jsize_of_uint (count d)) s) = NULL")
      (simp_all add: data_SwiftToJava_failure data_SwiftToJava_success)
  show ?thesis
    unfolding calls_GetJVM_def calls_GetJNIEnv_def calls_AttachCurrentThread_def
      calls_DetachCurrentThread_def calls_CallVoidMethod_def calls_GetArrayLength_def
      calls_GetByteArrayElements_def calls_data_SwiftToJava_def
      GetJVM_traced GetJNIEnv_traced AttachCurrentThread_traced DetachCurrentThread_traced
      CallVoidMethod_traced GetArrayLength_traced GetByteArrayElements_traced
      data_SwiftToJava_traced alloc
    by simp
qed

subsection \<open>C9: the version requested by get-env\<close>

text \<open>
  C9. For every call of \<open>GetJNIEnv\<close>, the one call of \<^verbatim>\<open>GetEnv\<close> is made with the
  version \<^verbatim>\<open>JNI_VERSION_1_6\<close>: \<open>GetJNIEnv\<close> takes the table, the output slot and
  nothing else, so its caller has no way to choose a version.
\<close>

theorem GetJNIEnv_fixed_version:
  "GetJNIEnv (traced_vm vm) p_env (tr, s) =
     (fst (GetJNIEnv vm p_env s),
      (tr @ [Call_GetEnv p_env JNI_VERSION_1_6], snd (GetJNIEnv vm p_env s))) \<and>
   GetJNIEnv vm p_env s =
     (snd (fst (vm_GetEnv vm p_env JNI_VERSION_1_6 s)), snd (vm_GetEnv vm p_env JNI_VERSION_1_6 s)) \<and>
   JNI_VERSION_1_6 = 0x00010006"
  by (simp add: GetJNIEnv_traced) (simp add: GetJNIEnv_def JNI_VERSION_1_6_def split: prod.splits)

subsection \<open>C10: the count as a signed size\<close>

text \<open>
  C10. For every buffer, the length \<open>data_SwiftToJava\<close> passes to
  \<^verbatim>\<open>NewByteArray\<close>, and to \<^verbatim>\<open>SetByteArrayRegion\<close> when the allocation
  succeeded, is the unsigned 32-bit count converted to \<^verbatim>\<open>jsize\<close>: the count itself
  when it is at most \<open>2 ^ 31 - 1\<close>, and the count minus \<open>2 ^ 32\<close>, a negative number
  that is not the caller's count, when it is larger.
\<close>

theorem data_SwiftToJava_count_conversion:
  "calls_data_SwiftToJava env d mem s =
     (if fst (env_NewByteArray env (jsize_of_uint (count d)) s) = NULL
      then [Call_NewByteArray (jsize_of_uint (count d))]
      else [Call_NewByteArray (jsize_of_uint (count d)),
            Call_SetByteArrayRegion (fst (env_NewByteArray env (jsize_of_uint (count d)) s))
              0 (jsize_of_uint (count d)) (data d)]) \<and>
   sint (jsize_of_uint (count d)) =
     (if unat (count d) < 2 ^ 31 then int (unat (count d)) else int (unat (count d)) - 2 ^ 32) \<and>
   (2 ^ 31 - 1 < unat (count d) \<longrightarrow>
      sint (jsize_of_uint (count d)) = int (unat (count d)) - 2 ^ 32 \<and>
      sint (jsize_of_uint (count d)) < 0 \<and>
      sint (jsize_of_uint (count d)) \<noteq> int (unat (count d)))"
proof -
  have calls: "calls_data_SwiftToJava env d mem s =
     (if fst (env_NewByteArray env (jsize_of_uint (count d)) s) = NULL
      then [Call_NewByteArray (jsize_of_uint (count d))]
      else [Call_NewByteArray (jsize_of_uint (count d)),
            Call_SetByteArrayRegion (fst (env_NewByteArray env (jsize_of_uint (count d)) s))
              0 (jsize_of_uint (count d)) (data d)])"
    by (simp add: calls_data_SwiftToJava_def data_SwiftToJava_traced)
  have conv: "sint (jsize_of_uint (count d)) =
     (if unat (count d) < 2 ^ 31 then int (unat (count d)) else int (unat (count d)) - 2 ^ 32)"
    by (rule sint_jsize_of_uint)
  have wrap: "2 ^ 31 - 1 < unat (count d) \<longrightarrow>
      sint (jsize_of_uint (count d)) = int (unat (count d)) - 2 ^ 32 \<and>
      sint (jsize_of_uint (count d)) < 0 \<and>
      sint (jsize_of_uint (count d)) \<noteq> int (unat (count d))"
    using uint_lt2p [of "count d"] unfolding conv by simp
  from calls conv wrap show ?thesis
    by (intro conjI)
qed

text \<open>
  The largest count, \<open>2 ^ 32 - 1\<close>, reaches the runtime as the length \<open>- 1\<close>, which
  the reference runtime refuses.
\<close>

theorem data_SwiftToJava_count_conversion_witness:
  "2 ^ 31 - 1 < unat (count d_max) \<and>
   unat (count d_max) = 4294967295 \<and>
   sint (jsize_of_uint (count d_max)) = - 1 \<and>
   calls_data_SwiftToJava ref_env d_max mem0 jvm0 = [Call_NewByteArray (- 1)]"
proof -
  have big: "unat (count d_max) = 4294967295"
    by (simp add: d_max_def)
  have bits: "jsize_of_uint (count d_max) = - 1"
    by (simp add: jsize_of_uint_def d_max_def)
  have fails: "fst (env_NewByteArray ref_env (- 1) jvm0) = NULL"
    by (simp add: ref_env_def ref_NewByteArray_def)
  from data_SwiftToJava_count_conversion [of ref_env d_max mem0 jvm0] fails
  show ?thesis
    unfolding bits big by simp
qed

end
